theory Spec2Isabelle
  imports Main "HOL-Library.Word"
begin

section \<open>The sqlite adapter of golang-plus/database (sqlite.go)\<close>

text \<open>
  The package wraps three handles of Go's \<^verbatim>\<open>database/sql\<close> (\<^verbatim>\<open>*sql.DB\<close>, \<^verbatim>\<open>*sql.Tx\<close>,
  \<^verbatim>\<open>*sql.Rows\<close>) and annotates every error they report through \<^verbatim>\<open>errors.Wrap\<close> and
  \<^verbatim>\<open>errors.Wrapf\<close>. Neither \<^verbatim>\<open>database/sql\<close>, the sqlite3 engine nor the errors package
  belongs to the repository, so the embedding takes them as parameters: every call into
  \<^verbatim>\<open>database/sql\<close> is a field of a \<open>driver\<close> record, a function from the state of the outside
  world (engine, files, caller's destination variables) to an outcome and the next state.
  The adapter functions below are written over an arbitrary such record.
\<close>

subsection \<open>Values of the Go program\<close>

type_synonym int64 = "64 word"

text \<open>Pointers handed out by \<^verbatim>\<open>database/sql\<close>; only their identity matters to the adapter.\<close>

datatype sql_DB = DB_ptr nat
datatype sql_Tx = Tx_ptr nat
datatype sql_Rows = Rows_ptr nat
datatype sql_Result = Result_ptr nat

text \<open>
  The value built by \<^verbatim>\<open>errors.Wrap(err, message)\<close> and \<^verbatim>\<open>errors.Wrapf(err, format, args...)\<close>:
  the wrapped error together with exactly what the call site passes. The text that the
  errors package renders from the format is left to that package.
\<close>

datatype 'e error =
    Wrap 'e string
  | Wrapf 'e string "string list"

text \<open>
  Modelled from the spec: the accessor of the errors package that gives back the wrapped
  error is not in the repository. Section 7: each error "wraps the original low-level cause
  and adds static context ... without altering the underlying error's identity for callers
  that need to inspect the root cause".
\<close>

fun Cause :: "'e error \<Rightarrow> 'e" where
  "Cause (Wrap err message) = err"
| "Cause (Wrapf err format operands) = err"

text \<open>The operands a wrapped error was formatted with (the statement text, the data source).\<close>

fun Operands :: "'e error \<Rightarrow> string list" where
  "Operands (Wrap err message) = []"
| "Operands (Wrapf err format operands) = operands"

subsection \<open>The calls into database/sql\<close>

text \<open>What the engine's result stream does when asked for the next row.\<close>

datatype 'e fetch = Row_ready | No_more_rows | Fetch_failed 'e

text \<open>
  \<open>'w\<close> is the state of the outside world, \<open>'e\<close> the errors of the driver, \<open>'a\<close> the statement
  arguments (\<^verbatim>\<open>interface{}\<close>) and \<open>'d\<close> the destinations given to \<^verbatim>\<open>Scan\<close>. A Go call that
  returns \<^verbatim>\<open>(value, err)\<close> is \<open>Inl err\<close> when \<^verbatim>\<open>err != nil\<close> and \<open>Inr value\<close> otherwise; a
  call that returns only \<^verbatim>\<open>error\<close> is an \<open>option\<close>, \<open>None\<close> for \<^verbatim>\<open>nil\<close>.
\<close>

record ('w, 'e, 'a, 'd) driver =
  sql_Open :: "string \<Rightarrow> string \<Rightarrow> 'w \<Rightarrow> ('e + sql_DB) \<times> 'w"
  DB_Exec :: "sql_DB \<Rightarrow> string \<Rightarrow> 'a list \<Rightarrow> 'w \<Rightarrow> ('e + sql_Result) \<times> 'w"
  DB_Query :: "sql_DB \<Rightarrow> string \<Rightarrow> 'a list \<Rightarrow> 'w \<Rightarrow> ('e + sql_Rows) \<times> 'w"
  DB_Begin :: "sql_DB \<Rightarrow> 'w \<Rightarrow> ('e + sql_Tx) \<times> 'w"
  Tx_Exec :: "sql_Tx \<Rightarrow> string \<Rightarrow> 'a list \<Rightarrow> 'w \<Rightarrow> ('e + sql_Result) \<times> 'w"
  Tx_Query :: "sql_Tx \<Rightarrow> string \<Rightarrow> 'a list \<Rightarrow> 'w \<Rightarrow> ('e + sql_Rows) \<times> 'w"
  Tx_Rollback :: "sql_Tx \<Rightarrow> 'w \<Rightarrow> 'e option \<times> 'w"
  Tx_Commit :: "sql_Tx \<Rightarrow> 'w \<Rightarrow> 'e option \<times> 'w"
  Result_RowsAffected :: "sql_Result \<Rightarrow> 'w \<Rightarrow> ('e + int64) \<times> 'w"
  Rows_fetch :: "sql_Rows \<Rightarrow> 'w \<Rightarrow> 'e fetch \<times> 'w"
  Rows_Scan :: "sql_Rows \<Rightarrow> 'd list \<Rightarrow> 'w \<Rightarrow> 'e option \<times> 'w"

text \<open>
  Modelled from the spec: \<^verbatim>\<open>(*sql.Rows).Next\<close> of \<^verbatim>\<open>database/sql\<close> is not in the repository.
  Section 4.3: Next "advances to the next row; returns false when exhausted or on underlying
  error (no error is surfaced from this call by design -- matches the delegated driver's
  convention ...)".
\<close>

definition sql_Rows_Next :: "('w, 'e, 'a, 'd) driver \<Rightarrow> sql_Rows \<Rightarrow> 'w \<Rightarrow> bool \<times> 'w" where
  "sql_Rows_Next drv rs w =
     (case Rows_fetch drv rs w of
        (Row_ready, w1) \<Rightarrow> (True, w1)
      | (No_more_rows, w1) \<Rightarrow> (False, w1)
      | (Fetch_failed err, w1) \<Rightarrow> (False, w1))"

subsection \<open>The adapter\<close>

text \<open>
  The three structs embed one pointer each. The values the adapter returns as interface
  values (\<^verbatim>\<open>sql2.Rows\<close>, \<^verbatim>\<open>sql2.Transaction\<close>, \<^verbatim>\<open>sql2.Database\<close>) are options: \<open>None\<close> is
  the \<^verbatim>\<open>nil\<close> interface, \<open>Some\<close> a pointer to a freshly built struct.
\<close>

datatype rows = rows (Rows: sql_Rows)
datatype transaction = transaction (Tx: sql_Tx)
datatype database = database (DB: sql_DB)

definition rows_Next :: "('w, 'e, 'a, 'd) driver \<Rightarrow> rows \<Rightarrow> 'w \<Rightarrow> bool \<times> 'w" where
  "rows_Next drv r w = sql_Rows_Next drv (Rows r) w"

definition rows_Scan ::
  "('w, 'e, 'a, 'd) driver \<Rightarrow> rows \<Rightarrow> 'd list \<Rightarrow> 'w \<Rightarrow> 'e error option \<times> 'w" where
  "rows_Scan drv r dest w =
     (case Rows_Scan drv (Rows r) dest w of
        (Some err, w1) \<Rightarrow> (Some (Wrap err ''could not parse columns in current row''), w1)
      | (None, w1) \<Rightarrow> (None, w1))"

definition transaction_Execute ::
  "('w, 'e, 'a, 'd) driver \<Rightarrow> transaction \<Rightarrow> string \<Rightarrow> 'a list \<Rightarrow> 'w
     \<Rightarrow> (int64 \<times> 'e error option) \<times> 'w" where
  "transaction_Execute drv t statement args w =
     (case Tx_Exec drv (Tx t) statement args w of
        (Inl err, w1) \<Rightarrow>
          ((0, Some (Wrapf err ''could not execute sql statement %q'' [statement])), w1)
      | (Inr result, w1) \<Rightarrow>
          (case Result_RowsAffected drv result w1 of
             (Inl err, w2) \<Rightarrow> ((0, Some (Wrap err ''could not get number of rows affected'')), w2)
           | (Inr n, w2) \<Rightarrow> ((n, None), w2)))"

definition transaction_Query ::
  "('w, 'e, 'a, 'd) driver \<Rightarrow> transaction \<Rightarrow> string \<Rightarrow> 'a list \<Rightarrow> 'w
     \<Rightarrow> (rows option \<times> 'e error option) \<times> 'w" where
  "transaction_Query drv t statement args w =
     (case Tx_Query drv (Tx t) statement args w of
        (Inl err, w1) \<Rightarrow> ((None, Some (Wrapf err ''could not query rows %q'' [statement])), w1)
      | (Inr rs, w1) \<Rightarrow> ((Some (rows rs), None), w1))"

definition transaction_Rollback ::
  "('w, 'e, 'a, 'd) driver \<Rightarrow> transaction \<Rightarrow> 'w \<Rightarrow> 'e error option \<times> 'w" where
  "transaction_Rollback drv t w =
     (case Tx_Rollback drv (Tx t) w of
        (Some err, w1) \<Rightarrow> (Some (Wrap err ''could not abort the transaction''), w1)
      | (None, w1) \<Rightarrow> (None, w1))"

definition transaction_Commit ::
  "('w, 'e, 'a, 'd) driver \<Rightarrow> transaction \<Rightarrow> 'w \<Rightarrow> 'e error option \<times> 'w" where
  "transaction_Commit drv t w =
     (case Tx_Commit drv (Tx t) w of
        (Some err, w1) \<Rightarrow> (Some (Wrap err ''could not commit the transaction''), w1)
      | (None, w1) \<Rightarrow> (None, w1))"

definition database_Execute ::
  "('w, 'e, 'a, 'd) driver \<Rightarrow> database \<Rightarrow> string \<Rightarrow> 'a list \<Rightarrow> 'w
     \<Rightarrow> (int64 \<times> 'e error option) \<times> 'w" where
  "database_Execute drv d statement args w =
     (case DB_Exec drv (DB d) statement args w of
        (Inl err, w1) \<Rightarrow>
          ((0, Some (Wrapf err ''could not execute sql statement %q'' [statement])), w1)
      | (Inr result, w1) \<Rightarrow>
          (case Result_RowsAffected drv result w1 of
             (Inl err, w2) \<Rightarrow> ((0, Some (Wrap err ''could not get number of rows affected'')), w2)
           | (Inr n, w2) \<Rightarrow> ((n, None), w2)))"

definition database_Query ::
  "('w, 'e, 'a, 'd) driver \<Rightarrow> database \<Rightarrow> string \<Rightarrow> 'a list \<Rightarrow> 'w
     \<Rightarrow> (rows option \<times> 'e error option) \<times> 'w" where
  "database_Query drv d statement args w =
     (case DB_Query drv (DB d) statement args w of
        (Inl err, w1) \<Rightarrow> ((None, Some (Wrapf err ''could not query rows %q'' [statement])), w1)
      | (Inr rs, w1) \<Rightarrow> ((Some (rows rs), None), w1))"

definition database_Begin ::
  "('w, 'e, 'a, 'd) driver \<Rightarrow> database \<Rightarrow> 'w \<Rightarrow> (transaction option \<times> 'e error option) \<times> 'w" where
  "database_Begin drv d w =
     (case DB_Begin drv (DB d) w of
        (Inl err, w1) \<Rightarrow> ((None, Some (Wrap err ''could not start a transaction'')), w1)
      | (Inr tx, w1) \<Rightarrow> ((Some (transaction tx), None), w1))"

definition NewDatabase ::
  "('w, 'e, 'a, 'd) driver \<Rightarrow> string \<Rightarrow> 'w \<Rightarrow> (database option \<times> 'e error option) \<times> 'w" where
  "NewDatabase drv dataSource w =
     (case sql_Open drv ''sqlite3'' dataSource w of
        (Inl err, w1) \<Rightarrow>
          ((None, Some (Wrapf err ''could not open the database %q'' [dataSource])), w1)
      | (Inr db, w1) \<Rightarrow> ((Some (database db), None), w1))"

definition New ::
  "('w, 'e, 'a, 'd) driver \<Rightarrow> string \<Rightarrow> 'w \<Rightarrow> (database option \<times> 'e error option) \<times> 'w" where
  "New drv dataSource w = NewDatabase drv dataSource w"

subsection \<open>The error taxonomy of the specification\<close>

text \<open>
  The code has no error types of its own. The spec names an error after the operation that
  failed; each name stands for the wrapped error with that operation's message.
\<close>

definition OpenError :: "string \<Rightarrow> 'e \<Rightarrow> 'e error" where
  "OpenError dataSource cause = Wrapf cause ''could not open the database %q'' [dataSource]"

definition ExecError :: "string \<Rightarrow> 'e \<Rightarrow> 'e error" where
  "ExecError statement cause = Wrapf cause ''could not execute sql statement %q'' [statement]"

definition AffectedCountError :: "'e \<Rightarrow> 'e error" where
  "AffectedCountError cause = Wrap cause ''could not get number of rows affected''"

definition QueryError :: "string \<Rightarrow> 'e \<Rightarrow> 'e error" where
  "QueryError statement cause = Wrapf cause ''could not query rows %q'' [statement]"

definition BeginError :: "'e \<Rightarrow> 'e error" where
  "BeginError cause = Wrap cause ''could not start a transaction''"

definition CommitError :: "'e \<Rightarrow> 'e error" where
  "CommitError cause = Wrap cause ''could not commit the transaction''"

definition RollbackError :: "'e \<Rightarrow> 'e error" where
  "RollbackError cause = Wrap cause ''could not abort the transaction''"

definition ScanError :: "'e \<Rightarrow> 'e error" where
  "ScanError cause = Wrap cause ''could not parse columns in current row''"

subsection \<open>A driver to run the adapter on\<close>

text \<open>
  A small stand-in for the engine, used to evaluate the adapter on concrete calls. Its world
  is the number of rows the open cursor still has to deliver. It refuses an empty data source
  and an empty statement, reports as many affected rows as the statement has arguments
  (and no count at all for more than three), opens a cursor with one row per argument, breaks
  the stream when seven rows are left, and decodes rows of exactly one column.
\<close>

definition stub :: "(nat, string, int, nat) driver" where
  "stub = \<lparr>
     sql_Open = (\<lambda>driverName dataSource w.
       if driverName = ''sqlite3'' \<and> dataSource \<noteq> [] then (Inr (DB_ptr 1), w)
       else (Inl ''unable to open database file'', w)),
     DB_Exec = (\<lambda>db statement args w.
       if statement = [] then (Inl ''incomplete input'', w)
       else (Inr (Result_ptr (length args)), w)),
     DB_Query = (\<lambda>db statement args w.
       if statement = [] then (Inl ''incomplete input'', w)
       else (Inr (Rows_ptr 1), length args)),
     DB_Begin = (\<lambda>db w. (Inr (Tx_ptr 1), w)),
     Tx_Exec = (\<lambda>tx statement args w.
       if statement = [] then (Inl ''incomplete input'', w)
       else (Inr (Result_ptr (length args)), w)),
     Tx_Query = (\<lambda>tx statement args w.
       if statement = [] then (Inl ''incomplete input'', w)
       else (Inr (Rows_ptr 1), length args)),
     Tx_Rollback = (\<lambda>tx w. (None, w)),
     Tx_Commit = (\<lambda>tx w. (None, w)),
     Result_RowsAffected = (\<lambda>result w.
       case result of Result_ptr k \<Rightarrow>
         if 3 < k then (Inl ''rows affected not supported'', w) else (Inr (of_nat k), w)),
     Rows_fetch = (\<lambda>rs w.
       if w = 0 then (No_more_rows, 0)
       else if w = 7 then (Fetch_failed ''disk I/O error'', 0)
       else (Row_ready, w - 1)),
     Rows_Scan = (\<lambda>rs dest w.
       if length dest = 1 then (None, w)
       else (Some ''expected 1 destination arguments in Scan'', w))
   \<rparr>"




text \<open>A driver on which every call fails with the given error.\<close>

definition refusing :: "string \<Rightarrow> (nat, string, int, nat) driver" where
  "refusing err = \<lparr>
     sql_Open = (\<lambda>driverName dataSource w. (Inl err, w)),
     DB_Exec = (\<lambda>db statement args w. (Inl err, w)),
     DB_Query = (\<lambda>db statement args w. (Inl err, w)),
     DB_Begin = (\<lambda>db w. (Inl err, w)),
     Tx_Exec = (\<lambda>tx statement args w. (Inl err, w)),
     Tx_Query = (\<lambda>tx statement args w. (Inl err, w)),
     Tx_Rollback = (\<lambda>tx w. (Some err, w)),
     Tx_Commit = (\<lambda>tx w. (Some err, w)),
     Result_RowsAffected = (\<lambda>result w. (Inl err, w)),
     Rows_fetch = (\<lambda>rs w. (Fetch_failed err, w)),
     Rows_Scan = (\<lambda>rs dest w. (Some err, w))
   \<rparr>"

subsection \<open>Counting the calls into database/sql\<close>

text \<open>
  To say how often the adapter calls into \<^verbatim>\<open>database/sql\<close>, a driver is run with a log
  beside its world: every call appends its name and arguments to the log and otherwise
  behaves as before. The adapter is the same code; only the driver it runs on changes.
\<close>

datatype ('a, 'd) call =
    Call_Open string string
  | Call_DB_Exec sql_DB string "'a list"
  | Call_DB_Query sql_DB string "'a list"
  | Call_DB_Begin sql_DB
  | Call_Tx_Exec sql_Tx string "'a list"
  | Call_Tx_Query sql_Tx string "'a list"
  | Call_Tx_Rollback sql_Tx
  | Call_Tx_Commit sql_Tx
  | Call_RowsAffected sql_Result
  | Call_Rows_Next sql_Rows
  | Call_Rows_Scan sql_Rows "'d list"

definition record_call ::
  "('a, 'd) call \<Rightarrow> ('w \<Rightarrow> 'r \<times> 'w) \<Rightarrow> 'w \<times> ('a, 'd) call list
     \<Rightarrow> 'r \<times> ('w \<times> ('a, 'd) call list)" where
  "record_call c f = (\<lambda>(w, l). case f w of (r, w1) \<Rightarrow> (r, (w1, l @ [c])))"

definition logged ::
  "('w, 'e, 'a, 'd) driver \<Rightarrow> ('w \<times> ('a, 'd) call list, 'e, 'a, 'd) driver" where
  "logged drv = \<lparr>
     sql_Open = (\<lambda>driverName dataSource.
       record_call (Call_Open driverName dataSource) (sql_Open drv driverName dataSource)),
     DB_Exec = (\<lambda>db statement args.
       record_call (Call_DB_Exec db statement args) (DB_Exec drv db statement args)),
     DB_Query = (\<lambda>db statement args.
       record_call (Call_DB_Query db statement args) (DB_Query drv db statement args)),
     DB_Begin = (\<lambda>db. record_call (Call_DB_Begin db) (DB_Begin drv db)),
     Tx_Exec = (\<lambda>tx statement args.
       record_call (Call_Tx_Exec tx statement args) (Tx_Exec drv tx statement args)),
     Tx_Query = (\<lambda>tx statement args.
       record_call (Call_Tx_Query tx statement args) (Tx_Query drv tx statement args)),
     Tx_Rollback = (\<lambda>tx. record_call (Call_Tx_Rollback tx) (Tx_Rollback drv tx)),
     Tx_Commit = (\<lambda>tx. record_call (Call_Tx_Commit tx) (Tx_Commit drv tx)),
     Result_RowsAffected = (\<lambda>result.
       record_call (Call_RowsAffected result) (Result_RowsAffected drv result)),
     Rows_fetch = (\<lambda>rs. record_call (Call_Rows_Next rs) (Rows_fetch drv rs)),
     Rows_Scan = (\<lambda>rs dest. record_call (Call_Rows_Scan rs dest) (Rows_Scan drv rs dest))
   \<rparr>"

subsection \<open>Iterating a cursor\<close>

text \<open>
  The loop \<^verbatim>\<open>for rows.Next() { ... }\<close> belongs to the caller. \<open>Next_calls drv r k\<close> is what
  \<open>k\<close> successive calls of \<^verbatim>\<open>Next\<close> on the cursor \<open>r\<close> return, and \<open>fetches drv rs k\<close> what the
  engine's stream \<open>rs\<close> does over \<open>k\<close> successive requests.
\<close>

fun fetches :: "('w, 'e, 'a, 'd) driver \<Rightarrow> sql_Rows \<Rightarrow> nat \<Rightarrow> 'w \<Rightarrow> 'e fetch list \<times> 'w" where
  "fetches drv rs 0 w = ([], w)"
| "fetches drv rs (Suc k) w =
     (case Rows_fetch drv rs w of
        (x, w1) \<Rightarrow> (case fetches drv rs k w1 of (xs, w2) \<Rightarrow> (x # xs, w2)))"

fun Next_calls :: "('w, 'e, 'a, 'd) driver \<Rightarrow> rows \<Rightarrow> nat \<Rightarrow> 'w \<Rightarrow> bool list \<times> 'w" where
  "Next_calls drv r 0 w = ([], w)"
| "Next_calls drv r (Suc k) w =
     (case rows_Next drv r w of
        (b, w1) \<Rightarrow> (case Next_calls drv r k w1 of (bs, w2) \<Rightarrow> (b # bs, w2)))"

section \<open>Database.Execute\<close>

lemmas error_names =
  OpenError_def ExecError_def AffectedCountError_def QueryError_def
  BeginError_def CommitError_def RollbackError_def ScanError_def

lemma database_Execute_ok:
  assumes "DB_Exec drv (DB d) statement args w = (Inr result, w1)"
    and "Result_RowsAffected drv result w1 = (Inr n, w2)"
  shows "database_Execute drv d statement args w = ((n, None), w2)"
  using assms by (simp add: database_Execute_def)

lemma database_Execute_exec_fails:
  assumes "DB_Exec drv (DB d) statement args w = (Inl err, w1)"
  shows "database_Execute drv d statement args w = ((0, Some (ExecError statement err)), w1)"
  using assms by (simp add: database_Execute_def ExecError_def)

lemma database_Execute_count_fails:
  assumes "DB_Exec drv (DB d) statement args w = (Inr result, w1)"
    and "Result_RowsAffected drv result w1 = (Inl err, w2)"
  shows "database_Execute drv d statement args w = ((0, Some (AffectedCountError err)), w2)"
  using assms by (simp add: database_Execute_def AffectedCountError_def)

lemma Cause_names [simp]:
  "Cause (OpenError dataSource err) = err"
  "Cause (ExecError statement err) = err"
  "Cause (AffectedCountError err) = err"
  "Cause (QueryError statement err) = err"
  "Cause (BeginError err) = err"
  "Cause (CommitError err) = err"
  "Cause (RollbackError err) = err"
  "Cause (ScanError err) = err"
  by (simp_all add: error_names)

lemma Operands_names [simp]:
  "Operands (OpenError dataSource err) = [dataSource]"
  "Operands (ExecError statement err) = [statement]"
  "Operands (QueryError statement err) = [statement]"
  by (simp_all add: error_names)

text \<open>
  C1. Database.Execute returns the affected-row count reported by the driver and a nil error
  when both the execution and the retrieval of the count succeed. When the execution fails
  it returns an ExecError that wraps the statement text and the underlying cause, and when
  only the count cannot be retrieved it returns an AffectedCountError that wraps that cause.
\<close>

theorem database_Execute_outcomes:
  "(DB_Exec drv (DB d) statement args w = (Inr result, w1) \<and>
      Result_RowsAffected drv result w1 = (Inr n, w2)
      \<longrightarrow> database_Execute drv d statement args w = ((n, None), w2)) \<and>
   (DB_Exec drv (DB d) statement args w = (Inl err, w1)
      \<longrightarrow> database_Execute drv d statement args w = ((0, Some (ExecError statement err)), w1)
          \<and> Cause (ExecError statement err) = err
          \<and> Operands (ExecError statement err) = [statement]) \<and>
   (DB_Exec drv (DB d) statement args w = (Inr result, w1) \<and>
      Result_RowsAffected drv result w1 = (Inl err, w2)
      \<longrightarrow> database_Execute drv d statement args w = ((0, Some (AffectedCountError err)), w2)
          \<and> Cause (AffectedCountError err) = err)"
  by (simp add: database_Execute_ok database_Execute_exec_fails database_Execute_count_fails)

theorem database_Execute_outcomes_witness:
  "database_Execute stub (database (DB_ptr 1)) ''INSERT INTO t VALUES (?)'' [5] 0
     = ((1, None), 0) \<and>
   database_Execute stub (database (DB_ptr 1)) [] [] 0
     = ((0, Some (ExecError [] ''incomplete input'')), 0) \<and>
   database_Execute stub (database (DB_ptr 1)) ''INSERT INTO t VALUES (?, ?, ?, ?)'' [1, 2, 3, 4] 0
     = ((0, Some (AffectedCountError ''rows affected not supported'')), 0)"
proof -
  have exec1: "DB_Exec stub (DB (database (DB_ptr 1))) ''INSERT INTO t VALUES (?)'' [5] 0
      = (Inr (Result_ptr 1), 0)"
    by (simp add: stub_def)
  have count1: "Result_RowsAffected stub (Result_ptr 1) 0 = (Inr 1, 0)"
    by (simp add: stub_def)
  have exec2: "DB_Exec stub (DB (database (DB_ptr 1))) [] [] 0 = (Inl ''incomplete input'', 0)"
    by (simp add: stub_def)
  have exec3: "DB_Exec stub (DB (database (DB_ptr 1))) ''INSERT INTO t VALUES (?, ?, ?, ?)''
      [1, 2, 3, 4] 0 = (Inr (Result_ptr 4), 0)"
    by (simp add: stub_def)
  have count3: "Result_RowsAffected stub (Result_ptr 4) 0
      = (Inl ''rows affected not supported'', 0)"
    by (simp add: stub_def)
  from database_Execute_outcomes
    [where drv = stub and d = "database (DB_ptr 1)" and statement = "''INSERT INTO t VALUES (?)''"
       and args = "[5]" and w = 0 and result = "Result_ptr 1" and ?w1.0 = 0 and n = 1 and ?w2.0 = 0]
    exec1 count1
  have a: "database_Execute stub (database (DB_ptr 1)) ''INSERT INTO t VALUES (?)'' [5] 0
     = ((1, None), 0)"
    by blast
  from database_Execute_outcomes
    [where drv = stub and d = "database (DB_ptr 1)" and statement = "[]" and args = "[]"
       and w = 0 and ?w1.0 = 0 and err = "''incomplete input''"]
    exec2
  have b: "database_Execute stub (database (DB_ptr 1)) [] [] 0
     = ((0, Some (ExecError [] ''incomplete input'')), 0)"
    by blast
  from database_Execute_outcomes
    [where drv = stub and d = "database (DB_ptr 1)"
       and statement = "''INSERT INTO t VALUES (?, ?, ?, ?)''" and args = "[1, 2, 3, 4]"
       and w = 0 and result = "Result_ptr 4" and ?w1.0 = 0
       and err = "''rows affected not supported''" and ?w2.0 = 0]
    exec3 count3
  have c: "database_Execute stub (database (DB_ptr 1)) ''INSERT INTO t VALUES (?, ?, ?, ?)''
      [1, 2, 3, 4] 0 = ((0, Some (AffectedCountError ''rows affected not supported'')), 0)"
    by blast
  from a b c show ?thesis by simp
qed

section \<open>Database.Query\<close>

lemma database_Query_ok:
  assumes "DB_Query drv (DB d) statement args w = (Inr rs, w1)"
  shows "database_Query drv d statement args w = ((Some (rows rs), None), w1)"
  using assms by (simp add: database_Query_def)

lemma database_Query_fails:
  assumes "DB_Query drv (DB d) statement args w = (Inl err, w1)"
  shows "database_Query drv d statement args w = ((None, Some (QueryError statement err)), w1)"
  using assms by (simp add: database_Query_def QueryError_def)

text \<open>
  C8. Database.Query returns a live cursor (a non-nil cursor over the rows handle the driver
  returned) and a nil error when the underlying query succeeds; when it fails, it returns a
  QueryError that wraps the statement text and the underlying cause.
\<close>

theorem database_Query_outcomes:
  "(DB_Query drv (DB d) statement args w = (Inr rs, w1)
      \<longrightarrow> database_Query drv d statement args w = ((Some (rows rs), None), w1)
          \<and> Rows (rows rs) = rs) \<and>
   (DB_Query drv (DB d) statement args w = (Inl err, w1)
      \<longrightarrow> database_Query drv d statement args w = ((None, Some (QueryError statement err)), w1)
          \<and> Cause (QueryError statement err) = err
          \<and> Operands (QueryError statement err) = [statement])"
  by (simp add: database_Query_ok database_Query_fails)

theorem database_Query_outcomes_witness:
  "database_Query stub (database (DB_ptr 1)) ''SELECT id FROM t'' [] 0
     = ((Some (rows (Rows_ptr 1)), None), 0) \<and>
   database_Query stub (database (DB_ptr 1)) [] [] 0
     = ((None, Some (QueryError [] ''incomplete input'')), 0)"
proof -
  have q1: "DB_Query stub (DB (database (DB_ptr 1))) ''SELECT id FROM t'' [] 0
      = (Inr (Rows_ptr 1), 0)"
    by (simp add: stub_def)
  have q2: "DB_Query stub (DB (database (DB_ptr 1))) [] [] 0 = (Inl ''incomplete input'', 0)"
    by (simp add: stub_def)
  from database_Query_outcomes
    [where drv = stub and d = "database (DB_ptr 1)" and statement = "''SELECT id FROM t''"
       and args = "[]" and w = 0 and rs = "Rows_ptr 1" and ?w1.0 = 0]
    q1
  have a: "database_Query stub (database (DB_ptr 1)) ''SELECT id FROM t'' [] 0
     = ((Some (rows (Rows_ptr 1)), None), 0)"
    by blast
  from database_Query_outcomes
    [where drv = stub and d = "database (DB_ptr 1)" and statement = "[]" and args = "[]"
       and w = 0 and ?w1.0 = 0 and err = "''incomplete input''"]
    q2
  have b: "database_Query stub (database (DB_ptr 1)) [] [] 0
     = ((None, Some (QueryError [] ''incomplete input'')), 0)"
    by blast
  from a b show ?thesis by simp
qed

section \<open>NewDatabase and New\<close>






section \<open>The cursor\<close>

lemma record_call_apply [simp]:
  "record_call c f (w, l) = (case f w of (r, w1) \<Rightarrow> (r, (w1, l @ [c])))"
  by (simp add: record_call_def)

lemma rows_Next_fetch:
  "rows_Next drv r w =
     (case Rows_fetch drv (Rows r) w of (x, w1) \<Rightarrow> (x = Row_ready, w1))"
  by (simp add: rows_Next_def sql_Rows_Next_def split: prod.splits fetch.splits)

text \<open>
  C4. Next returns false both when the result stream is exhausted and when the driver
  reports an error; in the two cases the caller gets the same value, a boolean beside the
  driver's next state, so no error value reaches the caller through Next.
\<close>

theorem rows_Next_false:
  "(Rows_fetch drv (Rows r) w = (No_more_rows, w1) \<longrightarrow> rows_Next drv r w = (False, w1)) \<and>
   (Rows_fetch drv (Rows r) w = (Fetch_failed err, w1) \<longrightarrow> rows_Next drv r w = (False, w1)) \<and>
   (Rows_fetch drv (Rows r) w = (Row_ready, w1) \<longrightarrow> rows_Next drv r w = (True, w1))"
  by (simp add: rows_Next_fetch)

theorem rows_Next_false_witness:
  "rows_Next stub (rows (Rows_ptr 1)) 0 = (False, 0) \<and>
   rows_Next stub (rows (Rows_ptr 1)) 7 = (False, 0) \<and>
   rows_Next stub (rows (Rows_ptr 1)) 2 = (True, 1)"
proof -
  have f0: "Rows_fetch stub (Rows (rows (Rows_ptr 1))) 0 = (No_more_rows, 0)"
    by (simp add: stub_def)
  have f7: "Rows_fetch stub (Rows (rows (Rows_ptr 1))) 7 = (Fetch_failed ''disk I/O error'', 0)"
    by (simp add: stub_def)
  have f2: "Rows_fetch stub (Rows (rows (Rows_ptr 1))) 2 = (Row_ready, 1)"
    by (simp add: stub_def)
  from rows_Next_false [where drv = stub and r = "rows (Rows_ptr 1)" and w = 0 and ?w1.0 = 0] f0
  have a: "rows_Next stub (rows (Rows_ptr 1)) 0 = (False, 0)"
    by blast
  from rows_Next_false [where drv = stub and r = "rows (Rows_ptr 1)" and w = 7 and ?w1.0 = 0
    and err = "''disk I/O error''"] f7
  have b: "rows_Next stub (rows (Rows_ptr 1)) 7 = (False, 0)"
    by blast
  from rows_Next_false [where drv = stub and r = "rows (Rows_ptr 1)" and w = 2 and ?w1.0 = 1] f2
  have c: "rows_Next stub (rows (Rows_ptr 1)) 2 = (True, 1)"
    by blast
  from a b c show ?thesis by simp
qed

lemma rows_Scan_ok:
  assumes "Rows_Scan drv (Rows r) dest w = (None, w1)"
  shows "rows_Scan drv r dest w = (None, w1)"
  using assms by (simp add: rows_Scan_def)

lemma rows_Scan_fails:
  assumes "Rows_Scan drv (Rows r) dest w = (Some err, w1)"
  shows "rows_Scan drv r dest w = (Some (ScanError err), w1)"
  using assms by (simp add: rows_Scan_def ScanError_def)

lemma rows_Scan_logged:
  "snd (snd (rows_Scan (logged drv) r dest (w, l))) = l @ [Call_Rows_Scan (Rows r) dest]"
  by (simp add: rows_Scan_def logged_def split: prod.splits option.splits)

text \<open>
  C5. Scan hands the caller's destinations, in their order and number, to the driver's
  decoder exactly once. When the decoder succeeds, Scan returns nil and the world is as the
  decoder left it (the destinations hold what it decoded). When the decoder reports a cause
  (the destination count does not match the row's columns, or a value cannot be converted),
  Scan returns a ScanError wrapping that cause.
\<close>

theorem rows_Scan_outcomes:
  "snd (snd (rows_Scan (logged drv) r dest (w, l))) = l @ [Call_Rows_Scan (Rows r) dest] \<and>
   (Rows_Scan drv (Rows r) dest w = (None, w1) \<longrightarrow> rows_Scan drv r dest w = (None, w1)) \<and>
   (Rows_Scan drv (Rows r) dest w = (Some err, w1)
      \<longrightarrow> rows_Scan drv r dest w = (Some (ScanError err), w1) \<and> Cause (ScanError err) = err)"
  by (simp add: rows_Scan_ok rows_Scan_fails rows_Scan_logged)

theorem rows_Scan_outcomes_witness:
  "rows_Scan stub (rows (Rows_ptr 1)) [0] 0 = (None, 0) \<and>
   rows_Scan stub (rows (Rows_ptr 1)) [0, 1] 0
     = (Some (ScanError ''expected 1 destination arguments in Scan''), 0)"
proof -
  have s1: "Rows_Scan stub (Rows (rows (Rows_ptr 1))) [0] 0 = (None, 0)"
    by (simp add: stub_def)
  have s2: "Rows_Scan stub (Rows (rows (Rows_ptr 1))) [0, 1] 0
      = (Some ''expected 1 destination arguments in Scan'', 0)"
    by (simp add: stub_def)
  from rows_Scan_outcomes
    [where drv = stub and r = "rows (Rows_ptr 1)" and dest = "[0]" and w = 0 and ?w1.0 = 0]
    s1
  have a: "rows_Scan stub (rows (Rows_ptr 1)) [0] 0 = (None, 0)"
    by blast
  from rows_Scan_outcomes
    [where drv = stub and r = "rows (Rows_ptr 1)" and dest = "[0, 1]" and w = 0 and ?w1.0 = 0
       and err = "''expected 1 destination arguments in Scan''"]
    s2
  have b: "rows_Scan stub (rows (Rows_ptr 1)) [0, 1] 0
     = (Some (ScanError ''expected 1 destination arguments in Scan''), 0)"
    by blast
  from a b show ?thesis by simp
qed

lemma Next_calls_fetches:
  "Next_calls drv r k w =
     (case fetches drv (Rows r) k w of (xs, w1) \<Rightarrow> (map (\<lambda>x. x = Row_ready) xs, w1))"
proof (induction k arbitrary: w)
  case 0
  show ?case by simp
next
  case (Suc k)
  obtain x wa where step: "Rows_fetch drv (Rows r) w = (x, wa)"
    by (cases "Rows_fetch drv (Rows r) w")
  obtain xs wb where rest: "fetches drv (Rows r) k wa = (xs, wb)"
    by (cases "fetches drv (Rows r) k wa")
  from Suc.IH [of wa] rest
  have "Next_calls drv r k wa = (map (\<lambda>x. x = Row_ready) xs, wb)"
    by simp
  with step rest show ?case
    by (simp add: rows_Next_fetch)
qed

text \<open>
  C6. When a query succeeds and the stream of its result set delivers N rows and then
  reports that it is exhausted, the cursor the query returns answers the first N calls of
  Next with true and the call after them with false. For an empty result set the first
  call of Next already returns false.
\<close>

theorem Next_calls_count:
  "(DB_Query drv (DB d) statement args w = (Inr rs, w1) \<and>
      fst (fetches drv rs (Suc N) w1) = replicate N Row_ready @ [No_more_rows]
      \<longrightarrow> (\<exists>r. fst (database_Query drv d statement args w) = (Some r, None)
             \<and> snd (database_Query drv d statement args w) = w1
             \<and> fst (Next_calls drv r (Suc N) w1) = replicate N True @ [False])) \<and>
   (DB_Query drv (DB d) statement args w = (Inr rs, w1) \<and>
      fst (Rows_fetch drv rs w1) = No_more_rows
      \<longrightarrow> (\<exists>r. fst (database_Query drv d statement args w) = (Some r, None)
             \<and> fst (rows_Next drv r w1) = False))"
proof (intro conjI impI)
  assume h: "DB_Query drv (DB d) statement args w = (Inr rs, w1) \<and>
      fst (fetches drv rs (Suc N) w1) = replicate N Row_ready @ [No_more_rows]"
  then have q: "database_Query drv d statement args w = ((Some (rows rs), None), w1)"
    by (simp add: database_Query_ok)
  from h have "fst (Next_calls drv (rows rs) (Suc N) w1)
      = map (\<lambda>x. x = Row_ready) (replicate N Row_ready @ [No_more_rows])"
    by (simp only: Next_calls_fetches rows.sel split: prod.splits) auto
  then have "fst (Next_calls drv (rows rs) (Suc N) w1) = replicate N True @ [False]"
    by simp
  with q show "\<exists>r. fst (database_Query drv d statement args w) = (Some r, None)
             \<and> snd (database_Query drv d statement args w) = w1
             \<and> fst (Next_calls drv r (Suc N) w1) = replicate N True @ [False]"
    by simp
next
  assume h: "DB_Query drv (DB d) statement args w = (Inr rs, w1) \<and>
      fst (Rows_fetch drv rs w1) = No_more_rows"
  then have q: "database_Query drv d statement args w = ((Some (rows rs), None), w1)"
    by (simp add: database_Query_ok)
  from h have "fst (rows_Next drv (rows rs) w1) = False"
    by (cases "Rows_fetch drv rs w1") (simp add: rows_Next_fetch)
  with q show "\<exists>r. fst (database_Query drv d statement args w) = (Some r, None)
             \<and> fst (rows_Next drv r w1) = False"
    by simp
qed

theorem Next_calls_count_witness:
  "(\<exists>r. fst (database_Query stub (database (DB_ptr 1)) ''SELECT id FROM t'' [1, 2] 0)
          = (Some r, None)
      \<and> snd (database_Query stub (database (DB_ptr 1)) ''SELECT id FROM t'' [1, 2] 0) = 2
      \<and> fst (Next_calls stub r (Suc 2) 2) = replicate 2 True @ [False]) \<and>
   (\<exists>r. fst (database_Query stub (database (DB_ptr 1)) ''SELECT id FROM t'' [] 0)
          = (Some r, None)
      \<and> fst (rows_Next stub r 0) = False)"
proof -
  have q2: "DB_Query stub (DB (database (DB_ptr 1))) ''SELECT id FROM t'' [1, 2] 0
      = (Inr (Rows_ptr 1), 2)"
    by (simp add: stub_def)
  have f2: "fst (fetches stub (Rows_ptr 1) (Suc 2) 2) = replicate 2 Row_ready @ [No_more_rows]"
    by (simp add: stub_def eval_nat_numeral)
  have q0: "DB_Query stub (DB (database (DB_ptr 1))) ''SELECT id FROM t'' [] 0
      = (Inr (Rows_ptr 1), 0)"
    by (simp add: stub_def)
  have f0: "fst (Rows_fetch stub (Rows_ptr 1) 0) = No_more_rows"
    by (simp add: stub_def)
  from Next_calls_count
    [where drv = stub and d = "database (DB_ptr 1)" and statement = "''SELECT id FROM t''"
       and args = "[1, 2]" and w = 0 and rs = "Rows_ptr 1" and ?w1.0 = 2 and N = 2]
    q2 f2
  have a: "\<exists>r. fst (database_Query stub (database (DB_ptr 1)) ''SELECT id FROM t'' [1, 2] 0)
          = (Some r, None)
      \<and> snd (database_Query stub (database (DB_ptr 1)) ''SELECT id FROM t'' [1, 2] 0) = 2
      \<and> fst (Next_calls stub r (Suc 2) 2) = replicate 2 True @ [False]"
    by blast
  from Next_calls_count
    [where drv = stub and d = "database (DB_ptr 1)" and statement = "''SELECT id FROM t''"
       and args = "[]" and w = 0 and rs = "Rows_ptr 1" and ?w1.0 = 0]
    q0 f0
  have b: "\<exists>r. fst (database_Query stub (database (DB_ptr 1)) ''SELECT id FROM t'' [] 0)
          = (Some r, None)
      \<and> fst (rows_Next stub r 0) = False"
    by blast
  from a b show ?thesis by blast
qed

section \<open>Transaction against Database\<close>

text \<open>
  C2. Transaction.Execute and Transaction.Query are Database.Execute and Database.Query with
  the underlying call issued against the transaction's context instead of the connection:
  on every statement, argument list and state of the world they return the same values and
  the same wrapped errors as the Database operation run on a driver whose connection-level
  Exec (Query) is the transaction's.
\<close>

theorem transaction_as_database:
  "transaction_Execute drv t statement args w
     = database_Execute (drv\<lparr>DB_Exec := \<lambda>db. Tx_Exec drv (Tx t)\<rparr>) d statement args w \<and>
   transaction_Query drv t statement args w
     = database_Query (drv\<lparr>DB_Query := \<lambda>db. Tx_Query drv (Tx t)\<rparr>) d statement args w"
  by (simp add: transaction_Execute_def database_Execute_def
      transaction_Query_def database_Query_def split: prod.splits sum.splits)

section \<open>Commit and Rollback\<close>

text \<open>
  Both forward to the driver and add no effect of their own: the world after the adapter's
  call is the world after the driver's call, and the error, if any, is the driver's, wrapped.
  What the call does to the stored tables is the engine's business.
\<close>

lemma transaction_finalize_forwarded:
  "transaction_Rollback drv t w
     = (map_option RollbackError (fst (Tx_Rollback drv (Tx t) w)), snd (Tx_Rollback drv (Tx t) w))"
  "transaction_Commit drv t w
     = (map_option CommitError (fst (Tx_Commit drv (Tx t) w)), snd (Tx_Commit drv (Tx t) w))"
  by (simp_all add: transaction_Rollback_def transaction_Commit_def RollbackError_def
      CommitError_def split: prod.splits option.splits)

section \<open>Zero values beside errors\<close>

text \<open>
  C10, as amended. Execute, on a Database and on a Transaction, returns 0 whenever its error
  is non-nil (it also returns 0 with a nil error when the driver reports that no row was
  affected). Query, Begin, NewDatabase and New return a nil handle when their error is
  non-nil and a non-nil handle when it is nil.
\<close>

theorem zero_value_beside_error:
  "(snd (fst (database_Execute drv d statement args w)) \<noteq> None
      \<longrightarrow> fst (fst (database_Execute drv d statement args w)) = 0) \<and>
   (snd (fst (transaction_Execute drv t statement args w)) \<noteq> None
      \<longrightarrow> fst (fst (transaction_Execute drv t statement args w)) = 0) \<and>
   ((fst (fst (database_Query drv d statement args w)) = None)
      = (snd (fst (database_Query drv d statement args w)) \<noteq> None)) \<and>
   ((fst (fst (transaction_Query drv t statement args w)) = None)
      = (snd (fst (transaction_Query drv t statement args w)) \<noteq> None)) \<and>
   ((fst (fst (database_Begin drv d w)) = None)
      = (snd (fst (database_Begin drv d w)) \<noteq> None)) \<and>
   ((fst (fst (NewDatabase drv dataSource w)) = None)
      = (snd (fst (NewDatabase drv dataSource w)) \<noteq> None)) \<and>
   ((fst (fst (New drv dataSource w)) = None)
      = (snd (fst (New drv dataSource w)) \<noteq> None))"
proof (intro conjI)
  show "snd (fst (database_Execute drv d statement args w)) \<noteq> None
      \<longrightarrow> fst (fst (database_Execute drv d statement args w)) = 0"
    by (simp add: database_Execute_def split: prod.splits sum.splits)
  show "snd (fst (transaction_Execute drv t statement args w)) \<noteq> None
      \<longrightarrow> fst (fst (transaction_Execute drv t statement args w)) = 0"
    by (simp add: transaction_Execute_def split: prod.splits sum.splits)
  show "(fst (fst (database_Query drv d statement args w)) = None)
      = (snd (fst (database_Query drv d statement args w)) \<noteq> None)"
    by (simp add: database_Query_def split: prod.splits sum.splits)
  show "(fst (fst (transaction_Query drv t statement args w)) = None)
      = (snd (fst (transaction_Query drv t statement args w)) \<noteq> None)"
    by (simp add: transaction_Query_def split: prod.splits sum.splits)
  show "(fst (fst (database_Begin drv d w)) = None)
      = (snd (fst (database_Begin drv d w)) \<noteq> None)"
    by (simp add: database_Begin_def split: prod.splits sum.splits)
  show "(fst (fst (NewDatabase drv dataSource w)) = None)
      = (snd (fst (NewDatabase drv dataSource w)) \<noteq> None)"
    by (simp add: NewDatabase_def split: prod.splits sum.splits)
  show "(fst (fst (New drv dataSource w)) = None)
      = (snd (fst (New drv dataSource w)) \<noteq> None)"
    by (simp add: New_def NewDatabase_def split: prod.splits sum.splits)
qed

theorem zero_value_beside_error_witness:
  "snd (fst (database_Execute stub (database (DB_ptr 1)) [] [] 0)) \<noteq> None \<and>
   fst (fst (database_Execute stub (database (DB_ptr 1)) [] [] 0)) = 0 \<and>
   snd (fst (transaction_Execute stub (transaction (Tx_ptr 1)) [] [] 0)) \<noteq> None \<and>
   fst (fst (transaction_Execute stub (transaction (Tx_ptr 1)) [] [] 0)) = 0"
proof -
  have h1: "snd (fst (database_Execute stub (database (DB_ptr 1)) [] [] 0)) \<noteq> None"
    by (simp add: database_Execute_def stub_def)
  have h2: "snd (fst (transaction_Execute stub (transaction (Tx_ptr 1)) [] [] 0)) \<noteq> None"
    by (simp add: transaction_Execute_def stub_def)
  from zero_value_beside_error
    [where drv = stub and d = "database (DB_ptr 1)" and t = "transaction (Tx_ptr 1)"
       and statement = "[]" and args = "[]" and w = 0]
    h1 h2
  show ?thesis by blast
qed

text \<open>
  Against C10 as first stated ("the success value is the zero value exactly when the error
  is non-nil"): the zero value does not tell that there was an error, since a statement that
  affects no row returns 0 beside a nil error.
\<close>

theorem Execute_zero_without_error:
  "\<not> ((fst (fst (database_Execute stub (database (DB_ptr 1)) ''CREATE TABLE t(id INTEGER)'' [] 0))
        = 0)
      = (snd (fst (database_Execute stub (database (DB_ptr 1)) ''CREATE TABLE t(id INTEGER)'' [] 0))
        \<noteq> None))"
  by (simp add: database_Execute_def stub_def)

section \<open>Every failure is wrapped and returned after one call\<close>

lemma logged_calls [simp]:
  "sql_Open (logged drv) driverName dataSource (w, l) =
     (case sql_Open drv driverName dataSource w of
        (x, w1) \<Rightarrow> (x, (w1, l @ [Call_Open driverName dataSource])))"
  "DB_Exec (logged drv) db statement args (w, l) =
     (case DB_Exec drv db statement args w of
        (x, w1) \<Rightarrow> (x, (w1, l @ [Call_DB_Exec db statement args])))"
  "DB_Query (logged drv) db statement args (w, l) =
     (case DB_Query drv db statement args w of
        (y, w1) \<Rightarrow> (y, (w1, l @ [Call_DB_Query db statement args])))"
  "DB_Begin (logged drv) db (w, l) =
     (case DB_Begin drv db w of (z, w1) \<Rightarrow> (z, (w1, l @ [Call_DB_Begin db])))"
  "Tx_Exec (logged drv) tx statement args (w, l) =
     (case Tx_Exec drv tx statement args w of
        (x, w1) \<Rightarrow> (x, (w1, l @ [Call_Tx_Exec tx statement args])))"
  "Tx_Query (logged drv) tx statement args (w, l) =
     (case Tx_Query drv tx statement args w of
        (y, w1) \<Rightarrow> (y, (w1, l @ [Call_Tx_Query tx statement args])))"
  "Tx_Rollback (logged drv) tx (w, l) =
     (case Tx_Rollback drv tx w of (u, w1) \<Rightarrow> (u, (w1, l @ [Call_Tx_Rollback tx])))"
  "Tx_Commit (logged drv) tx (w, l) =
     (case Tx_Commit drv tx w of (u, w1) \<Rightarrow> (u, (w1, l @ [Call_Tx_Commit tx])))"
  "Result_RowsAffected (logged drv) result (w, l) =
     (case Result_RowsAffected drv result w of
        (v, w1) \<Rightarrow> (v, (w1, l @ [Call_RowsAffected result])))"
  "Rows_Scan (logged drv) rs dest (w, l) =
     (case Rows_Scan drv rs dest w of (u, w1) \<Rightarrow> (u, (w1, l @ [Call_Rows_Scan rs dest])))"
  by (simp_all add: logged_def)

lemma NewDatabase_once:
  assumes "sql_Open drv ''sqlite3'' dataSource w = (Inl err, w1)"
  shows "NewDatabase (logged drv) dataSource (w, l)
     = ((None, Some (OpenError dataSource err)), (w1, l @ [Call_Open ''sqlite3'' dataSource]))"
  using assms by (simp add: NewDatabase_def OpenError_def)

lemma database_Execute_once:
  assumes "DB_Exec drv (DB d) statement args w = (Inl err, w1)"
  shows "database_Execute (logged drv) d statement args (w, l)
     = ((0, Some (ExecError statement err)), (w1, l @ [Call_DB_Exec (DB d) statement args]))"
  using assms by (simp add: database_Execute_def ExecError_def)

lemma database_Execute_count_once:
  assumes "DB_Exec drv (DB d) statement args w = (Inr result, w1)"
    and "Result_RowsAffected drv result w1 = (Inl err, w2)"
  shows "database_Execute (logged drv) d statement args (w, l)
     = ((0, Some (AffectedCountError err)),
        (w2, l @ [Call_DB_Exec (DB d) statement args, Call_RowsAffected result]))"
  using assms by (simp add: database_Execute_def AffectedCountError_def)

lemma transaction_Execute_once:
  assumes "Tx_Exec drv (Tx t) statement args w = (Inl err, w1)"
  shows "transaction_Execute (logged drv) t statement args (w, l)
     = ((0, Some (ExecError statement err)), (w1, l @ [Call_Tx_Exec (Tx t) statement args]))"
  using assms by (simp add: transaction_Execute_def ExecError_def)

lemma transaction_Execute_count_once:
  assumes "Tx_Exec drv (Tx t) statement args w = (Inr result, w1)"
    and "Result_RowsAffected drv result w1 = (Inl err, w2)"
  shows "transaction_Execute (logged drv) t statement args (w, l)
     = ((0, Some (AffectedCountError err)),
        (w2, l @ [Call_Tx_Exec (Tx t) statement args, Call_RowsAffected result]))"
  using assms by (simp add: transaction_Execute_def AffectedCountError_def)

lemma database_Query_once:
  assumes "DB_Query drv (DB d) statement args w = (Inl err, w1)"
  shows "database_Query (logged drv) d statement args (w, l)
     = ((None, Some (QueryError statement err)), (w1, l @ [Call_DB_Query (DB d) statement args]))"
  using assms by (simp add: database_Query_def QueryError_def)

lemma transaction_Query_once:
  assumes "Tx_Query drv (Tx t) statement args w = (Inl err, w1)"
  shows "transaction_Query (logged drv) t statement args (w, l)
     = ((None, Some (QueryError statement err)), (w1, l @ [Call_Tx_Query (Tx t) statement args]))"
  using assms by (simp add: transaction_Query_def QueryError_def)

lemma database_Begin_once:
  assumes "DB_Begin drv (DB d) w = (Inl err, w1)"
  shows "database_Begin (logged drv) d (w, l)
     = ((None, Some (BeginError err)), (w1, l @ [Call_DB_Begin (DB d)]))"
  using assms by (simp add: database_Begin_def BeginError_def)

lemma transaction_Commit_once:
  assumes "Tx_Commit drv (Tx t) w = (Some err, w1)"
  shows "transaction_Commit (logged drv) t (w, l)
     = (Some (CommitError err), (w1, l @ [Call_Tx_Commit (Tx t)]))"
  using assms by (simp add: transaction_Commit_def CommitError_def)

lemma transaction_Rollback_once:
  assumes "Tx_Rollback drv (Tx t) w = (Some err, w1)"
  shows "transaction_Rollback (logged drv) t (w, l)
     = (Some (RollbackError err), (w1, l @ [Call_Tx_Rollback (Tx t)]))"
  using assms by (simp add: transaction_Rollback_def RollbackError_def)

lemma rows_Scan_once:
  assumes "Rows_Scan drv (Rows r) dest w = (Some err, w1)"
  shows "rows_Scan (logged drv) r dest (w, l)
     = (Some (ScanError err), (w1, l @ [Call_Rows_Scan (Rows r) dest]))"
  using assms by (simp add: rows_Scan_def ScanError_def)

text \<open>
  C9. For Open, Execute, Query, Begin, Commit, Rollback and Scan: when the underlying call
  reports an error, the adapter returns an error whose cause is that very error, the log of
  calls into the driver grows by that one call (by the one Exec and the one RowsAffected
  when it is the count that fails), and the world is left as that call left it. So the call
  is issued once, nothing is retried, and no failure is swallowed.
\<close>

theorem failures_wrapped_once:
  "(sql_Open drv ''sqlite3'' dataSource w = (Inl err, w1)
      \<longrightarrow> NewDatabase (logged drv) dataSource (w, l)
            = ((None, Some (OpenError dataSource err)),
               (w1, l @ [Call_Open ''sqlite3'' dataSource]))
          \<and> New (logged drv) dataSource (w, l)
            = ((None, Some (OpenError dataSource err)),
               (w1, l @ [Call_Open ''sqlite3'' dataSource]))
          \<and> Cause (OpenError dataSource err) = err) \<and>
   (DB_Exec drv (DB d) statement args w = (Inl err, w1)
      \<longrightarrow> database_Execute (logged drv) d statement args (w, l)
            = ((0, Some (ExecError statement err)),
               (w1, l @ [Call_DB_Exec (DB d) statement args]))
          \<and> Cause (ExecError statement err) = err) \<and>
   (DB_Exec drv (DB d) statement args w = (Inr result, w1) \<and>
      Result_RowsAffected drv result w1 = (Inl err, w2)
      \<longrightarrow> database_Execute (logged drv) d statement args (w, l)
            = ((0, Some (AffectedCountError err)),
               (w2, l @ [Call_DB_Exec (DB d) statement args, Call_RowsAffected result]))
          \<and> Cause (AffectedCountError err) = err) \<and>
   (Tx_Exec drv (Tx t) statement args w = (Inl err, w1)
      \<longrightarrow> transaction_Execute (logged drv) t statement args (w, l)
            = ((0, Some (ExecError statement err)),
               (w1, l @ [Call_Tx_Exec (Tx t) statement args]))) \<and>
   (Tx_Exec drv (Tx t) statement args w = (Inr result, w1) \<and>
      Result_RowsAffected drv result w1 = (Inl err, w2)
      \<longrightarrow> transaction_Execute (logged drv) t statement args (w, l)
            = ((0, Some (AffectedCountError err)),
               (w2, l @ [Call_Tx_Exec (Tx t) statement args, Call_RowsAffected result]))) \<and>
   (DB_Query drv (DB d) statement args w = (Inl err, w1)
      \<longrightarrow> database_Query (logged drv) d statement args (w, l)
            = ((None, Some (QueryError statement err)),
               (w1, l @ [Call_DB_Query (DB d) statement args]))
          \<and> Cause (QueryError statement err) = err) \<and>
   (Tx_Query drv (Tx t) statement args w = (Inl err, w1)
      \<longrightarrow> transaction_Query (logged drv) t statement args (w, l)
            = ((None, Some (QueryError statement err)),
               (w1, l @ [Call_Tx_Query (Tx t) statement args]))) \<and>
   (DB_Begin drv (DB d) w = (Inl err, w1)
      \<longrightarrow> database_Begin (logged drv) d (w, l)
            = ((None, Some (BeginError err)), (w1, l @ [Call_DB_Begin (DB d)]))
          \<and> Cause (BeginError err) = err) \<and>
   (Tx_Commit drv (Tx t) w = (Some err, w1)
      \<longrightarrow> transaction_Commit (logged drv) t (w, l)
            = (Some (CommitError err), (w1, l @ [Call_Tx_Commit (Tx t)]))
          \<and> Cause (CommitError err) = err) \<and>
   (Tx_Rollback drv (Tx t) w = (Some err, w1)
      \<longrightarrow> transaction_Rollback (logged drv) t (w, l)
            = (Some (RollbackError err), (w1, l @ [Call_Tx_Rollback (Tx t)]))
          \<and> Cause (RollbackError err) = err) \<and>
   (Rows_Scan drv (Rows r) dest w = (Some err, w1)
      \<longrightarrow> rows_Scan (logged drv) r dest (w, l)
            = (Some (ScanError err), (w1, l @ [Call_Rows_Scan (Rows r) dest]))
          \<and> Cause (ScanError err) = err)"
proof (intro conjI impI)
  assume "sql_Open drv ''sqlite3'' dataSource w = (Inl err, w1)"
  then show "NewDatabase (logged drv) dataSource (w, l)
      = ((None, Some (OpenError dataSource err)), (w1, l @ [Call_Open ''sqlite3'' dataSource]))"
    and "New (logged drv) dataSource (w, l)
      = ((None, Some (OpenError dataSource err)), (w1, l @ [Call_Open ''sqlite3'' dataSource]))"
    by (simp_all add: New_def NewDatabase_once)
next
  assume "DB_Exec drv (DB d) statement args w = (Inl err, w1)"
  then show "database_Execute (logged drv) d statement args (w, l)
      = ((0, Some (ExecError statement err)), (w1, l @ [Call_DB_Exec (DB d) statement args]))"
    by (rule database_Execute_once)
next
  assume "DB_Exec drv (DB d) statement args w = (Inr result, w1) \<and>
      Result_RowsAffected drv result w1 = (Inl err, w2)"
  then show "database_Execute (logged drv) d statement args (w, l)
      = ((0, Some (AffectedCountError err)),
         (w2, l @ [Call_DB_Exec (DB d) statement args, Call_RowsAffected result]))"
    by (simp add: database_Execute_count_once)
next
  assume "Tx_Exec drv (Tx t) statement args w = (Inl err, w1)"
  then show "transaction_Execute (logged drv) t statement args (w, l)
      = ((0, Some (ExecError statement err)), (w1, l @ [Call_Tx_Exec (Tx t) statement args]))"
    by (rule transaction_Execute_once)
next
  assume "Tx_Exec drv (Tx t) statement args w = (Inr result, w1) \<and>
      Result_RowsAffected drv result w1 = (Inl err, w2)"
  then show "transaction_Execute (logged drv) t statement args (w, l)
      = ((0, Some (AffectedCountError err)),
         (w2, l @ [Call_Tx_Exec (Tx t) statement args, Call_RowsAffected result]))"
    by (simp add: transaction_Execute_count_once)
next
  assume "DB_Query drv (DB d) statement args w = (Inl err, w1)"
  then show "database_Query (logged drv) d statement args (w, l)
      = ((None, Some (QueryError statement err)),
         (w1, l @ [Call_DB_Query (DB d) statement args]))"
    by (rule database_Query_once)
next
  assume "Tx_Query drv (Tx t) statement args w = (Inl err, w1)"
  then show "transaction_Query (logged drv) t statement args (w, l)
      = ((None, Some (QueryError statement err)),
         (w1, l @ [Call_Tx_Query (Tx t) statement args]))"
    by (rule transaction_Query_once)
next
  assume "DB_Begin drv (DB d) w = (Inl err, w1)"
  then show "database_Begin (logged drv) d (w, l)
      = ((None, Some (BeginError err)), (w1, l @ [Call_DB_Begin (DB d)]))"
    by (rule database_Begin_once)
next
  assume "Tx_Commit drv (Tx t) w = (Some err, w1)"
  then show "transaction_Commit (logged drv) t (w, l)
      = (Some (CommitError err), (w1, l @ [Call_Tx_Commit (Tx t)]))"
    by (rule transaction_Commit_once)
next
  assume "Tx_Rollback drv (Tx t) w = (Some err, w1)"
  then show "transaction_Rollback (logged drv) t (w, l)
      = (Some (RollbackError err), (w1, l @ [Call_Tx_Rollback (Tx t)]))"
    by (rule transaction_Rollback_once)
next
  assume "Rows_Scan drv (Rows r) dest w = (Some err, w1)"
  then show "rows_Scan (logged drv) r dest (w, l)
      = (Some (ScanError err), (w1, l @ [Call_Rows_Scan (Rows r) dest]))"
    by (rule rows_Scan_once)
qed simp_all

theorem failures_wrapped_once_witness:
  "NewDatabase (logged (refusing ''database is locked'')) ''test.db'' (0, [])
     = ((None, Some (OpenError ''test.db'' ''database is locked'')),
        (0, [Call_Open ''sqlite3'' ''test.db''])) \<and>
   database_Execute (logged (refusing ''database is locked'')) (database (DB_ptr 1))
       ''DELETE FROM t'' [] (0, [])
     = ((0, Some (ExecError ''DELETE FROM t'' ''database is locked'')),
        (0, [Call_DB_Exec (DB_ptr 1) ''DELETE FROM t'' []])) \<and>
   transaction_Execute (logged (refusing ''database is locked'')) (transaction (Tx_ptr 1))
       ''DELETE FROM t'' [] (0, [])
     = ((0, Some (ExecError ''DELETE FROM t'' ''database is locked'')),
        (0, [Call_Tx_Exec (Tx_ptr 1) ''DELETE FROM t'' []])) \<and>
   database_Query (logged (refusing ''database is locked'')) (database (DB_ptr 1))
       ''DELETE FROM t'' [] (0, [])
     = ((None, Some (QueryError ''DELETE FROM t'' ''database is locked'')),
        (0, [Call_DB_Query (DB_ptr 1) ''DELETE FROM t'' []])) \<and>
   transaction_Query (logged (refusing ''database is locked'')) (transaction (Tx_ptr 1))
       ''DELETE FROM t'' [] (0, [])
     = ((None, Some (QueryError ''DELETE FROM t'' ''database is locked'')),
        (0, [Call_Tx_Query (Tx_ptr 1) ''DELETE FROM t'' []])) \<and>
   database_Begin (logged (refusing ''database is locked'')) (database (DB_ptr 1)) (0, [])
     = ((None, Some (BeginError ''database is locked'')), (0, [Call_DB_Begin (DB_ptr 1)])) \<and>
   transaction_Commit (logged (refusing ''database is locked'')) (transaction (Tx_ptr 1)) (0, [])
     = (Some (CommitError ''database is locked''), (0, [Call_Tx_Commit (Tx_ptr 1)])) \<and>
   transaction_Rollback (logged (refusing ''database is locked'')) (transaction (Tx_ptr 1)) (0, [])
     = (Some (RollbackError ''database is locked''), (0, [Call_Tx_Rollback (Tx_ptr 1)])) \<and>
   rows_Scan (logged (refusing ''database is locked'')) (rows (Rows_ptr 1)) [0] (0, [])
     = (Some (ScanError ''database is locked''), (0, [Call_Rows_Scan (Rows_ptr 1) [0]])) \<and>
   database_Execute (logged stub) (database (DB_ptr 1))
       ''INSERT INTO t VALUES (?, ?, ?, ?)'' [1, 2, 3, 4] (0, [])
     = ((0, Some (AffectedCountError ''rows affected not supported'')),
        (0, [Call_DB_Exec (DB_ptr 1) ''INSERT INTO t VALUES (?, ?, ?, ?)'' [1, 2, 3, 4],
             Call_RowsAffected (Result_ptr 4)])) \<and>
   transaction_Execute (logged stub) (transaction (Tx_ptr 1))
       ''INSERT INTO t VALUES (?, ?, ?, ?)'' [1, 2, 3, 4] (0, [])
     = ((0, Some (AffectedCountError ''rows affected not supported'')),
        (0, [Call_Tx_Exec (Tx_ptr 1) ''INSERT INTO t VALUES (?, ?, ?, ?)'' [1, 2, 3, 4],
             Call_RowsAffected (Result_ptr 4)]))"
proof -
  let ?no = "refusing ''database is locked''"
  have opn: "sql_Open ?no ''sqlite3'' ''test.db'' 0 = (Inl ''database is locked'', 0)"
    and dbx: "DB_Exec ?no (DB (database (DB_ptr 1))) ''DELETE FROM t'' [] 0
      = (Inl ''database is locked'', 0)"
    and txx: "Tx_Exec ?no (Tx (transaction (Tx_ptr 1))) ''DELETE FROM t'' [] 0
      = (Inl ''database is locked'', 0)"
    and dbq: "DB_Query ?no (DB (database (DB_ptr 1))) ''DELETE FROM t'' [] 0
      = (Inl ''database is locked'', 0)"
    and txq: "Tx_Query ?no (Tx (transaction (Tx_ptr 1))) ''DELETE FROM t'' [] 0
      = (Inl ''database is locked'', 0)"
    and beg: "DB_Begin ?no (DB (database (DB_ptr 1))) 0 = (Inl ''database is locked'', 0)"
    and com: "Tx_Commit ?no (Tx (transaction (Tx_ptr 1))) 0 = (Some ''database is locked'', 0)"
    and rol: "Tx_Rollback ?no (Tx (transaction (Tx_ptr 1))) 0 = (Some ''database is locked'', 0)"
    and scn: "Rows_Scan ?no (Rows (rows (Rows_ptr 1))) [0] 0 = (Some ''database is locked'', 0)"
    by (simp_all add: refusing_def)
  have dbx4: "DB_Exec stub (DB (database (DB_ptr 1))) ''INSERT INTO t VALUES (?, ?, ?, ?)''
      [1, 2, 3, 4] 0 = (Inr (Result_ptr 4), 0)"
    and txx4: "Tx_Exec stub (Tx (transaction (Tx_ptr 1))) ''INSERT INTO t VALUES (?, ?, ?, ?)''
      [1, 2, 3, 4] 0 = (Inr (Result_ptr 4), 0)"
    and cnt4: "Result_RowsAffected stub (Result_ptr 4) 0
      = (Inl ''rows affected not supported'', 0)"
    by (simp_all add: stub_def)
  note refused = failures_wrapped_once
    [where drv = ?no and dataSource = "''test.db''" and d = "database (DB_ptr 1)"
       and t = "transaction (Tx_ptr 1)" and r = "rows (Rows_ptr 1)"
       and statement = "''DELETE FROM t''" and args = "[]" and dest = "[0]"
       and w = 0 and l = "[]" and ?w1.0 = 0 and err = "''database is locked''"]
  note uncounted = failures_wrapped_once
    [where drv = stub and d = "database (DB_ptr 1)" and t = "transaction (Tx_ptr 1)"
       and statement = "''INSERT INTO t VALUES (?, ?, ?, ?)''" and args = "[1, 2, 3, 4]"
       and w = 0 and l = "[]" and result = "Result_ptr 4" and ?w1.0 = 0 and ?w2.0 = 0
       and err = "''rows affected not supported''"]
  from refused opn dbx txx dbq txq beg com rol scn
  have a: "NewDatabase (logged ?no) ''test.db'' (0, [])
     = ((None, Some (OpenError ''test.db'' ''database is locked'')),
        (0, [] @ [Call_Open ''sqlite3'' ''test.db'']))"
    and b: "database_Execute (logged ?no) (database (DB_ptr 1)) ''DELETE FROM t'' [] (0, [])
     = ((0, Some (ExecError ''DELETE FROM t'' ''database is locked'')),
        (0, [] @ [Call_DB_Exec (DB (database (DB_ptr 1))) ''DELETE FROM t'' []]))"
    and c: "transaction_Execute (logged ?no) (transaction (Tx_ptr 1)) ''DELETE FROM t'' [] (0, [])
     = ((0, Some (ExecError ''DELETE FROM t'' ''database is locked'')),
        (0, [] @ [Call_Tx_Exec (Tx (transaction (Tx_ptr 1))) ''DELETE FROM t'' []]))"
    and d: "database_Query (logged ?no) (database (DB_ptr 1)) ''DELETE FROM t'' [] (0, [])
     = ((None, Some (QueryError ''DELETE FROM t'' ''database is locked'')),
        (0, [] @ [Call_DB_Query (DB (database (DB_ptr 1))) ''DELETE FROM t'' []]))"
    and e: "transaction_Query (logged ?no) (transaction (Tx_ptr 1)) ''DELETE FROM t'' [] (0, [])
     = ((None, Some (QueryError ''DELETE FROM t'' ''database is locked'')),
        (0, [] @ [Call_Tx_Query (Tx (transaction (Tx_ptr 1))) ''DELETE FROM t'' []]))"
    and f: "database_Begin (logged ?no) (database (DB_ptr 1)) (0, [])
     = ((None, Some (BeginError ''database is locked'')),
        (0, [] @ [Call_DB_Begin (DB (database (DB_ptr 1)))]))"
    and g: "transaction_Commit (logged ?no) (transaction (Tx_ptr 1)) (0, [])
     = (Some (CommitError ''database is locked''),
        (0, [] @ [Call_Tx_Commit (Tx (transaction (Tx_ptr 1)))]))"
    and h: "transaction_Rollback (logged ?no) (transaction (Tx_ptr 1)) (0, [])
     = (Some (RollbackError ''database is locked''),
        (0, [] @ [Call_Tx_Rollback (Tx (transaction (Tx_ptr 1)))]))"
    and i: "rows_Scan (logged ?no) (rows (Rows_ptr 1)) [0] (0, [])
     = (Some (ScanError ''database is locked''),
        (0, [] @ [Call_Rows_Scan (Rows (rows (Rows_ptr 1))) [0]]))"
    by blast+
  from uncounted dbx4 txx4 cnt4
  have j: "database_Execute (logged stub) (database (DB_ptr 1))
       ''INSERT INTO t VALUES (?, ?, ?, ?)'' [1, 2, 3, 4] (0, [])
     = ((0, Some (AffectedCountError ''rows affected not supported'')),
        (0, [] @ [Call_DB_Exec (DB (database (DB_ptr 1))) ''INSERT INTO t VALUES (?, ?, ?, ?)''
                    [1, 2, 3, 4],
                  Call_RowsAffected (Result_ptr 4)]))"
    and k: "transaction_Execute (logged stub) (transaction (Tx_ptr 1))
       ''INSERT INTO t VALUES (?, ?, ?, ?)'' [1, 2, 3, 4] (0, [])
     = ((0, Some (AffectedCountError ''rows affected not supported'')),
        (0, [] @ [Call_Tx_Exec (Tx (transaction (Tx_ptr 1))) ''INSERT INTO t VALUES (?, ?, ?, ?)''
                    [1, 2, 3, 4],
                  Call_RowsAffected (Result_ptr 4)]))"
    by blast+
  from a b c d e f g h i j k show ?thesis
    by simp
qed

end
